theory Spec2Isabelle
  imports Complex_Main
begin

section \<open>The drawing canvas component\<close>

text \<open>
  The component \<open>DrawingCanvas\<close> keeps its stroke metrics, the pointer position of the
  stroke in progress and the two history stacks in React refs, and the flag
  \<open>isDrawing\<close> in React state. The model threads one record through every handler.

  JavaScript numbers are modelled exactly: counters that start at \<open>0\<close> and are only
  incremented are \<open>nat\<close>, the readings of \<open>Date.now()\<close> (whole milliseconds) and their
  differences are \<open>int\<close>, everything else is \<open>real\<close>. Rounding of IEEE doubles is not
  modelled.

  The canvas element itself is the environment: each handler receives what
  \<open>canvasRef.current\<close> answers at the time of the call (\<open>None\<close> when the ref is null),
  and each clock reading as an argument. What \<open>clear\<close>, \<open>undo\<close> and \<open>redo\<close> paint is
  returned as a value; the line segments that \<open>draw\<close> strokes, and with them the colour,
  width and dash style of the line, are outside the model.
\<close>

type_synonym snapshot = string

record DrawingMetrics =
  strokeCount :: nat
  lastStrokeTime :: int
  hesitationSeconds :: real
  totalDrawingTime :: int
  clearCount :: nat
  undoCount :: nat
  averageSpeed :: real

text \<open>
  What a handler can read from the canvas element: \<open>toDataURL()\<close>,
  \<open>toDataURL('image/jpeg', 0.8)\<close>, whether \<open>getContext('2d')\<close> is non-null, and the
  left and top of \<open>getBoundingClientRect()\<close>.
\<close>

record canvas_el =
  dataURL :: snapshot
  jpegURL :: string
  context2d :: bool
  rect_left :: real
  rect_top :: real

record canvas_state =
  metrics :: DrawingMetrics
  isDrawing :: bool
  lastPos :: "(real \<times> real) option"
  drawStartTime :: int
  undoStack :: "snapshot list"
  redoStack :: "snapshot list"

text \<open>
  The stacks are JavaScript arrays in array order: \<open>push\<close> appends at the end,
  \<open>pop\<close> removes the last element, \<open>shift\<close> removes the first.
\<close>

definition MAX_HISTORY :: nat where
  "MAX_HISTORY = 50"

text \<open>The state of a freshly mounted component; \<open>now\<close> is \<open>Date.now()\<close> at mount.\<close>

definition init :: "int \<Rightarrow> canvas_state" where
  "init now =
     \<lparr>metrics = \<lparr>strokeCount = 0, lastStrokeTime = now, hesitationSeconds = 0,
                 totalDrawingTime = 0, clearCount = 0, undoCount = 0, averageSpeed = 0\<rparr>,
      isDrawing = False, lastPos = None, drawStartTime = 0,
      undoStack = [], redoStack = []\<rparr>"

text \<open>
  The effect of a handler on the pixels of the canvas: nothing, the background fill of
  \<open>clear\<close>, or an image created from a snapshot whose \<open>onload\<close> handler fills the
  background and draws the image over it.
\<close>

datatype paint = NoPaint | FillBackground | LoadImage snapshot

subsection \<open>History stacks\<close>

definition saveState :: "canvas_el option \<Rightarrow> canvas_state \<Rightarrow> canvas_state" where
  "saveState cv st =
     (case cv of
        None \<Rightarrow> st
      | Some c \<Rightarrow>
          let pushed = undoStack st @ [dataURL c];
              kept = (if length pushed > MAX_HISTORY then tl pushed else pushed)
          in st\<lparr>undoStack := kept, redoStack := []\<rparr>)"

definition restoreState :: "canvas_el option \<Rightarrow> snapshot \<Rightarrow> paint" where
  "restoreState cv dataUrl =
     (case cv of
        None \<Rightarrow> NoPaint
      | Some c \<Rightarrow> if \<not> context2d c then NoPaint else LoadImage dataUrl)"

definition clear :: "canvas_el option \<Rightarrow> canvas_state \<Rightarrow> paint \<times> canvas_state" where
  "clear cv st =
     (let st1 = saveState cv st;
          st2 = st1\<lparr>metrics := (metrics st1)\<lparr>clearCount := clearCount (metrics st1) + 1\<rparr>\<rparr>
      in (case cv of
            None \<Rightarrow> (NoPaint, st2)
          | Some c \<Rightarrow> (if context2d c then FillBackground else NoPaint, st2)))"

definition undo :: "canvas_el option \<Rightarrow> canvas_state \<Rightarrow> paint \<times> canvas_state" where
  "undo cv st =
     (if undoStack st = [] then (NoPaint, st)
      else case cv of
        None \<Rightarrow> (NoPaint, st)
      | Some c \<Rightarrow>
          let st1 = st\<lparr>metrics := (metrics st)\<lparr>undoCount := undoCount (metrics st) + 1\<rparr>\<rparr>;
              currentState = dataURL c;
              st2 = st1\<lparr>redoStack := redoStack st1 @ [currentState]\<rparr>;
              previousState = last (undoStack st2);
              st3 = st2\<lparr>undoStack := butlast (undoStack st2)\<rparr>
          in (restoreState cv previousState, st3))"

definition redo :: "canvas_el option \<Rightarrow> canvas_state \<Rightarrow> paint \<times> canvas_state" where
  "redo cv st =
     (if redoStack st = [] then (NoPaint, st)
      else case cv of
        None \<Rightarrow> (NoPaint, st)
      | Some c \<Rightarrow>
          let currentState = dataURL c;
              st1 = st\<lparr>undoStack := undoStack st @ [currentState]\<rparr>;
              nextState = last (redoStack st1);
              st2 = st1\<lparr>redoStack := butlast (redoStack st1)\<rparr>
          in (restoreState cv nextState, st2))"

text \<open>
  \<open>getSnapshot\<close> returns the second piece of the JPEG data URL split at commas;
  \<open>None\<close> stands for JavaScript's \<open>undefined\<close> (a string without a comma).
\<close>

fun split_on :: "char \<Rightarrow> string \<Rightarrow> string list" where
  "split_on d [] = [[]]"
| "split_on d (c # cs) =
     (if c = d then [] # split_on d cs
      else (case split_on d cs of
              [] \<Rightarrow> [[c]]
            | w # ws \<Rightarrow> (c # w) # ws))"

definition getSnapshot :: "canvas_el option \<Rightarrow> string option" where
  "getSnapshot cv =
     (case cv of
        None \<Rightarrow> Some []
      | Some c \<Rightarrow>
          (case split_on (CHR '','') (jpegURL c) of
             _ # piece # _ \<Rightarrow> Some piece
           | _ \<Rightarrow> None))"

subsection \<open>Stroke metrics\<close>

definition getMetrics :: "int \<Rightarrow> canvas_state \<Rightarrow> DrawingMetrics \<times> canvas_state" where
  "getMetrics now st =
     (let st1 = (if \<not> isDrawing st
                 then st\<lparr>metrics := (metrics st)\<lparr>hesitationSeconds :=
                        real_of_int (now - lastStrokeTime (metrics st)) / 1000\<rparr>\<rparr>
                 else st)
      in (metrics st1, st1))"

text \<open>
  A mouse event carries \<open>clientX\<close> and \<open>clientY\<close>; of a touch event the handler reads
  \<open>touches[0]\<close>, which the events the handler is bound to (touchstart, touchmove) always
  have.
\<close>

datatype pointer_event = MouseEv real real | TouchEv real real

fun position :: "canvas_el \<Rightarrow> pointer_event \<Rightarrow> real \<times> real" where
  "position c (TouchEv clientX clientY) = (clientX - rect_left c, clientY - rect_top c)"
| "position c (MouseEv clientX clientY) = (clientX - rect_left c, clientY - rect_top c)"

definition draw :: "bool \<Rightarrow> canvas_el option \<Rightarrow> pointer_event \<Rightarrow> canvas_state \<Rightarrow> canvas_state" where
  "draw isActive cv e st =
     (if \<not> isDrawing st \<or> \<not> isActive then st
      else case cv of
        None \<Rightarrow> st
      | Some c \<Rightarrow>
          if \<not> context2d c then st
          else
            let (x, y) = position c e;
                st1 = (case lastPos st of
                         None \<Rightarrow> st
                       | Some (lx, ly) \<Rightarrow>
                           let dist = sqrt ((x - lx)\<^sup>2 + (y - ly)\<^sup>2)
                           in st\<lparr>metrics := (metrics st)\<lparr>averageSpeed :=
                                  (averageSpeed (metrics st) + dist) / 2\<rparr>\<rparr>)
            in st1\<lparr>lastPos := Some (x, y)\<rparr>)"

text \<open>
  \<open>startDrawing\<close> calls \<open>draw\<close> from the same render, so that call still sees the value
  \<open>isDrawing\<close> had before \<open>setIsDrawing(true)\<close>; the new value is in force from the
  next handler on.
\<close>

definition startDrawing ::
  "bool \<Rightarrow> canvas_el option \<Rightarrow> int \<Rightarrow> pointer_event \<Rightarrow> canvas_state \<Rightarrow> canvas_state" where
  "startDrawing isActive cv now e st =
     (if \<not> isActive then st
      else
        let st1 = saveState cv st;
            st2 = st1\<lparr>metrics := (metrics st1)\<lparr>strokeCount := strokeCount (metrics st1) + 1\<rparr>\<rparr>;
            st3 = st2\<lparr>drawStartTime := now\<rparr>;
            st4 = draw isActive cv e st3
        in st4\<lparr>isDrawing := True\<rparr>)"

text \<open>\<open>stopDrawing\<close> reads the clock twice.\<close>

definition stopDrawing :: "int \<Rightarrow> int \<Rightarrow> canvas_state \<Rightarrow> canvas_state" where
  "stopDrawing now1 now2 st =
     (let st1 = (if isDrawing st
                 then st\<lparr>metrics := (metrics st)
                        \<lparr>lastStrokeTime := now1,
                         totalDrawingTime := totalDrawingTime (metrics st) + (now2 - drawStartTime st)\<rparr>\<rparr>
                 else st)
      in st1\<lparr>isDrawing := False, lastPos := None\<rparr>)"

subsection \<open>Handlers as events\<close>

datatype event =
    StartDrawing bool "canvas_el option" int pointer_event
  | Draw bool "canvas_el option" pointer_event
  | StopDrawing int int
  | SaveState "canvas_el option"
  | Clear "canvas_el option"
  | Undo "canvas_el option"
  | Redo "canvas_el option"
  | GetMetrics int

fun handle :: "event \<Rightarrow> canvas_state \<Rightarrow> canvas_state" where
  "handle (StartDrawing isActive cv now e) st = startDrawing isActive cv now e st"
| "handle (Draw isActive cv e) st = draw isActive cv e st"
| "handle (StopDrawing now1 now2) st = stopDrawing now1 now2 st"
| "handle (SaveState cv) st = saveState cv st"
| "handle (Clear cv) st = snd (clear cv st)"
| "handle (Undo cv) st = snd (undo cv st)"
| "handle (Redo cv) st = snd (redo cv st)"
| "handle (GetMetrics now) st = snd (getMetrics now st)"

fun run :: "event list \<Rightarrow> canvas_state \<Rightarrow> canvas_state" where
  "run [] st = st"
| "run (ev # evs) st = run evs (handle ev st)"

subsection \<open>Derived scores (\<open>getMetricsPayload\<close> in the application)\<close>

text \<open>
  \<open>parseFloat(x.toFixed(2))\<close>: the decimal with two fraction digits nearest to \<open>x\<close>,
  the larger one in magnitude on a tie; from \<open>10\<^sup>2\<^sup>1\<close> on \<open>toFixed\<close> prints the number
  itself.
\<close>

definition toFixed2 :: "real \<Rightarrow> real" where
  "toFixed2 x =
     (if \<bar>x\<bar> \<ge> 10 ^ 21 then x
      else if x < 0 then - (of_int \<lfloor>- x * 100 + 1 / 2\<rfloor> / 100)
      else of_int \<lfloor>x * 100 + 1 / 2\<rfloor> / 100)"

definition confidence_score :: "DrawingMetrics \<Rightarrow> real" where
  "confidence_score m =
     min 1 (max 0 (real (strokeCount m) / 40 + averageSpeed m / 200 - hesitationSeconds m / 10))"

definition efficiency_score :: "DrawingMetrics \<Rightarrow> real" where
  "efficiency_score m =
     min 1 (max 0 (real (strokeCount m) / (real_of_int (totalDrawingTime m) / 1000 + 1) * 5))"

definition clarity_score :: "DrawingMetrics \<Rightarrow> real" where
  "clarity_score m = min 1 (max 0 (real (strokeCount m) / 25))"

text \<open>The quotient that the payload reports, rounded, as \<open>redraw_rate\<close>.\<close>

definition redraw_rate :: "DrawingMetrics \<Rightarrow> real" where
  "redraw_rate m = real (undoCount m) / (real (strokeCount m) + 1)"

definition trend :: "DrawingMetrics \<Rightarrow> string" where
  "trend m =
     (if averageSpeed m > 60 then ''rising''
      else if hesitationSeconds m > 3 then ''falling''
      else ''stable'')"

datatype phase = Live | End

record metrics_payload =
  pl_phase :: phase
  pl_remaining_pct :: real
  pl_confidence :: real
  pl_trend :: string
  pl_hesitation_seconds :: real
  pl_redraw_rate :: real
  pl_efficiency :: real
  pl_panic_detected :: bool
  pl_clarity :: real
  pl_recognizable_early :: bool
  pl_cooldown_active :: bool
  pl_comments_used :: nat

text \<open>
  \<open>canvasMetrics\<close> is the result of \<open>canvasRef1.current?.getMetrics()\<close>, \<open>None\<close> when
  the handle is null; \<open>timeLeft\<close>, \<open>lastCommentTime\<close> and \<open>commentCount\<close> are state of
  the application, \<open>now\<close> is \<open>Date.now()\<close>.
\<close>

definition getMetricsPayload ::
  "phase \<Rightarrow> real \<Rightarrow> int \<Rightarrow> int \<Rightarrow> nat \<Rightarrow> DrawingMetrics option \<Rightarrow> metrics_payload option" where
  "getMetricsPayload ph timeLeft now lastCommentTime commentCount canvasMetrics =
     (case canvasMetrics of
        None \<Rightarrow> None
      | Some m \<Rightarrow>
          let time_remaining_pct = timeLeft / 60
          in Some
            \<lparr>pl_phase = ph,
             pl_remaining_pct = time_remaining_pct,
             pl_confidence = toFixed2 (confidence_score m),
             pl_trend = trend m,
             pl_hesitation_seconds = hesitationSeconds m,
             pl_redraw_rate = toFixed2 (redraw_rate m),
             pl_efficiency = toFixed2 (efficiency_score m),
             pl_panic_detected = (time_remaining_pct < 0.15 \<and> averageSpeed m > 120),
             pl_clarity = toFixed2 (clarity_score m),
             pl_recognizable_early = (strokeCount m > 15),
             pl_cooldown_active = (now - lastCommentTime < 5000),
             pl_comments_used = commentCount\<rparr>)"

subsection \<open>The smoothing policy as the specification words it\<close>

text \<open>
  The recurrence \<open>a\<^sub>n = (a\<^sub>n\<^sub>-\<^sub>1 + d\<^sub>n) / 2\<close> from a starting value, and the Euclidean
  distances between consecutive pointer samples, the first argument being the sample
  before the sequence if there is one.
\<close>

fun smoothing_recurrence :: "real \<Rightarrow> real list \<Rightarrow> real" where
  "smoothing_recurrence a [] = a"
| "smoothing_recurrence a (d # ds) = smoothing_recurrence ((a + d) / 2) ds"

fun sample_distances :: "(real \<times> real) option \<Rightarrow> (real \<times> real) list \<Rightarrow> real list" where
  "sample_distances prev [] = []"
| "sample_distances None (p # ps) = sample_distances (Some p) ps"
| "sample_distances (Some q) (p # ps) =
     sqrt ((fst p - fst q)\<^sup>2 + (snd p - snd q)\<^sup>2) # sample_distances (Some p) ps"

subsection \<open>Concrete surfaces for the examples\<close>

text \<open>A mounted canvas at the origin of the viewport whose pixels serialise to \<open>s\<close>.\<close>

definition live_canvas :: "snapshot \<Rightarrow> canvas_el" where
  "live_canvas s =
     \<lparr>dataURL = s, jpegURL = ''data:image/jpeg;base64,'' @ s, context2d = True,
      rect_left = 0, rect_top = 0\<rparr>"

text \<open>The pointer moving over a canvas during a stroke: one \<open>draw\<close> call per sample.\<close>

definition pointer_moves :: "(canvas_el \<times> pointer_event) list \<Rightarrow> event list" where
  "pointer_moves calls = map (\<lambda>(c, e). Draw True (Some c) e) calls"

definition samples :: "(canvas_el \<times> pointer_event) list \<Rightarrow> (real \<times> real) list" where
  "samples calls = map (\<lambda>(c, e). position c e) calls"

subsection \<open>Auxiliary notions for the history\<close>

text \<open>The two stacks together never hold more than \<open>MAX_HISTORY\<close> snapshots.\<close>

definition history_bounded :: "canvas_state \<Rightarrow> bool" where
  "history_bounded st \<longleftrightarrow> length (undoStack st) + length (redoStack st) \<le> MAX_HISTORY"

text \<open>One \<open>saveState\<close> call per canvas reading, each on a mounted canvas.\<close>

definition pushes :: "canvas_el list \<Rightarrow> event list" where
  "pushes cs = map (\<lambda>c. SaveState (Some c)) cs"

subsection \<open>The canvas element with the images being restored\<close>







section \<open>Smoothing of the pointer speed\<close>

lemma draw_in_stroke:
  "isDrawing st \<Longrightarrow> context2d c \<Longrightarrow>
   isDrawing (draw True (Some c) e st) \<and>
   lastPos (draw True (Some c) e st) = Some (position c e) \<and>
   averageSpeed (metrics (draw True (Some c) e st)) =
     smoothing_recurrence (averageSpeed (metrics st)) (sample_distances (lastPos st) [position c e])"
  by (cases "position c e") (auto simp: draw_def split: option.splits prod.splits)

lemma smoothing_recurrence_append:
  "smoothing_recurrence a (ds @ es) = smoothing_recurrence (smoothing_recurrence a ds) es"
  by (induction ds arbitrary: a) auto

lemma sample_distances_step:
  "sample_distances prev (p # ps) = sample_distances prev [p] @ sample_distances (Some p) ps"
  by (cases prev) auto

lemma pointer_moves_recurrence:
  "isDrawing st \<Longrightarrow> \<forall>(c, e) \<in> set calls. context2d c \<Longrightarrow>
   averageSpeed (metrics (run (pointer_moves calls) st)) =
     smoothing_recurrence (averageSpeed (metrics st)) (sample_distances (lastPos st) (samples calls))"
proof (induction calls arbitrary: st)
  case Nil
  then show ?case by (simp add: pointer_moves_def samples_def)
next
  case (Cons call calls)
  obtain c e where call: "call = (c, e)" by (cases call)
  let ?st = "draw True (Some c) e st"
  from Cons.prems call have ctx: "context2d c" and rest: "\<forall>(c, e) \<in> set calls. context2d c"
    by auto
  note step = draw_in_stroke [OF Cons.prems(1) ctx, of e]
  have "averageSpeed (metrics (run (pointer_moves calls) ?st)) =
        smoothing_recurrence (averageSpeed (metrics ?st)) (sample_distances (lastPos ?st) (samples calls))"
    using Cons.IH [of ?st] step rest by blast
  moreover have "samples (call # calls) = position c e # samples calls"
    by (simp add: samples_def call)
  moreover have "run (pointer_moves (call # calls)) st = run (pointer_moves calls) ?st"
    by (simp add: pointer_moves_def call)
  ultimately show ?case
    using step sample_distances_step [of "lastPos st" "position c e" "samples calls"]
    by (simp add: smoothing_recurrence_append)
qed

lemma first_stroke_eq:
  "startDrawing True (Some (live_canvas [])) 0 (MouseEv 0 0) (init 0) =
     \<lparr>metrics = \<lparr>strokeCount = 1, lastStrokeTime = 0, hesitationSeconds = 0,
                 totalDrawingTime = 0, clearCount = 0, undoCount = 0, averageSpeed = 0\<rparr>,
      isDrawing = True, lastPos = None, drawStartTime = 0,
      undoStack = [[]], redoStack = []\<rparr>"
  by (simp add: startDrawing_def saveState_def init_def draw_def live_canvas_def
      MAX_HISTORY_def Let_def)

lemma startDrawing_fresh:
  "\<not> isDrawing st \<Longrightarrow>
   isDrawing (startDrawing True cv t e st) \<and>
   lastPos (startDrawing True cv t e st) = lastPos st \<and>
   averageSpeed (metrics (startDrawing True cv t e st)) = averageSpeed (metrics st)"
  by (cases cv) (simp_all add: startDrawing_def saveState_def draw_def Let_def)

lemma first_stroke_recurrence:
  "\<forall>(c, e) \<in> set calls. context2d c \<Longrightarrow>
   averageSpeed (metrics (run (StartDrawing True cv t e0 # pointer_moves calls) (init now))) =
     smoothing_recurrence 0 (sample_distances None (samples calls))"
proof -
  assume ctx: "\<forall>(c, e) \<in> set calls. context2d c"
  let ?st = "startDrawing True cv t e0 (init now)"
  have fresh: "\<not> isDrawing (init now)" by (simp add: init_def)
  note s = startDrawing_fresh [OF fresh, of cv t e0]
  have "averageSpeed (metrics (run (pointer_moves calls) ?st)) =
        smoothing_recurrence (averageSpeed (metrics ?st)) (sample_distances (lastPos ?st) (samples calls))"
    using s ctx by (simp add: pointer_moves_recurrence)
  then show ?thesis using s by (simp add: init_def)
qed

lemma two_strokes:
  "metrics (run [StartDrawing True (Some (live_canvas [])) 0 (MouseEv 0 0),
        Draw True (Some (live_canvas [])) (MouseEv 0 0),
        Draw True (Some (live_canvas [])) (MouseEv 10 0),
        StopDrawing 1 1,
        StartDrawing True (Some (live_canvas [])) 2 (MouseEv 0 0),
        Draw True (Some (live_canvas [])) (MouseEv 0 0),
        Draw True (Some (live_canvas [])) (MouseEv 8 0)] (init 0)) =
   \<lparr>strokeCount = 2, lastStrokeTime = 1, hesitationSeconds = 0,
    totalDrawingTime = 1, clearCount = 0, undoCount = 0, averageSpeed = 13 / 2\<rparr>"
  by (simp add: startDrawing_def stopDrawing_def saveState_def init_def draw_def live_canvas_def
      MAX_HISTORY_def Let_def)

text \<open>
  Claim C1, as amended. Within a stroke (the component is drawing and active, the canvas
  and its 2D context are there), after any sequence of pointer moves \<open>averageSpeed\<close> is
  the recurrence \<open>a\<^sub>n = (a\<^sub>n\<^sub>-\<^sub>1 + d\<^sub>n) / 2\<close> run over the Euclidean distances between
  consecutive pointer samples, started at the value \<open>averageSpeed\<close> had when the sequence
  began. In the first stroke on a new canvas that value is \<open>0\<close>. Neither the end of a
  stroke nor the start of the next one resets \<open>averageSpeed\<close>, so a later stroke starts
  from the value the earlier ones left. The first sample of a stroke has no predecessor
  and contributes no distance.
\<close>

theorem averageSpeed_recurrence:
  "(isDrawing st \<and> (\<forall>(c, e) \<in> set calls. context2d c) \<longrightarrow>
      averageSpeed (metrics (run (pointer_moves calls) st)) =
        smoothing_recurrence (averageSpeed (metrics st))
          (sample_distances (lastPos st) (samples calls))) \<and>
   ((\<forall>(c, e) \<in> set calls. context2d c) \<longrightarrow>
      averageSpeed (metrics (run (StartDrawing True cv t e0 # pointer_moves calls) (init now))) =
        smoothing_recurrence 0 (sample_distances None (samples calls))) \<and>
   averageSpeed (metrics (stopDrawing now1 now2 st)) = averageSpeed (metrics st) \<and>
   (\<not> isDrawing st \<longrightarrow>
      averageSpeed (metrics (startDrawing isActive cv t e0 st)) = averageSpeed (metrics st))"
proof -
  have "averageSpeed (metrics (stopDrawing now1 now2 st)) = averageSpeed (metrics st)"
    by (simp add: stopDrawing_def Let_def)
  moreover have "\<not> isDrawing st \<Longrightarrow>
      averageSpeed (metrics (startDrawing isActive cv t e0 st)) = averageSpeed (metrics st)"
    by (cases cv) (simp_all add: startDrawing_def saveState_def draw_def Let_def)
  ultimately show ?thesis
    using pointer_moves_recurrence [of st calls] first_stroke_recurrence [of calls cv t e0 now]
    by blast
qed

text \<open>
  The first stroke on a new canvas, with samples at \<open>x = 0, 10, 30, 60\<close>: the distances
  are \<open>10, 20, 30\<close> and \<open>averageSpeed\<close> runs through \<open>5\<close>, \<open>12.5\<close>, \<open>21.25\<close>. A stroke
  in progress at \<open>(0, 0)\<close> with \<open>averageSpeed = 0\<close> and a move to \<open>(3, 4)\<close>: \<open>2.5\<close>.
\<close>

theorem averageSpeed_recurrence_witness:
  "averageSpeed (metrics (run (StartDrawing True (Some (live_canvas [])) 0 (MouseEv 0 0) #
      pointer_moves [(live_canvas [], MouseEv 0 0), (live_canvas [], MouseEv 10 0)])
      (init 0))) = 5 \<and>
   averageSpeed (metrics (run (StartDrawing True (Some (live_canvas [])) 0 (MouseEv 0 0) #
      pointer_moves [(live_canvas [], MouseEv 0 0), (live_canvas [], MouseEv 10 0),
        (live_canvas [], MouseEv 30 0)])
      (init 0))) = 25 / 2 \<and>
   averageSpeed (metrics (run (StartDrawing True (Some (live_canvas [])) 0 (MouseEv 0 0) #
      pointer_moves [(live_canvas [], MouseEv 0 0), (live_canvas [], MouseEv 10 0),
        (live_canvas [], MouseEv 30 0), (live_canvas [], TouchEv 60 0)])
      (init 0))) = 85 / 4 \<and>
   isDrawing (startDrawing True (Some (live_canvas [])) 0 (MouseEv 0 0) (init 0)) \<and>
   averageSpeed (metrics (run (pointer_moves [(live_canvas [], MouseEv 3 4)])
      ((startDrawing True (Some (live_canvas [])) 0 (MouseEv 0 0) (init 0))
         \<lparr>lastPos := Some (0, 0)\<rparr>))) = 5 / 2"
  using
    averageSpeed_recurrence [where st = "(startDrawing True (Some (live_canvas [])) 0 (MouseEv 0 0) (init 0))
         \<lparr>lastPos := Some (0, 0)\<rparr>" and calls = "[(live_canvas [], MouseEv 3 4)]"]
    averageSpeed_recurrence [where calls = "[(live_canvas [], MouseEv 0 0), (live_canvas [], MouseEv 10 0)]"
      and cv = "Some (live_canvas [])" and t = 0 and ?e0.0 = "MouseEv 0 0" and now = 0]
    averageSpeed_recurrence [where calls = "[(live_canvas [], MouseEv 0 0), (live_canvas [], MouseEv 10 0),
        (live_canvas [], MouseEv 30 0)]"
      and cv = "Some (live_canvas [])" and t = 0 and ?e0.0 = "MouseEv 0 0" and now = 0]
    averageSpeed_recurrence [where calls = "[(live_canvas [], MouseEv 0 0), (live_canvas [], MouseEv 10 0),
        (live_canvas [], MouseEv 30 0), (live_canvas [], TouchEv 60 0)]"
      and cv = "Some (live_canvas [])" and t = 0 and ?e0.0 = "MouseEv 0 0" and now = 0]
  unfolding first_stroke_eq
  by (simp add: samples_def live_canvas_def)

text \<open>
  Claim C1 as stated, with \<open>a\<^sub>0 = 0\<close> for every stroke, fails from the second stroke on.
  A first stroke with one distance of \<open>10\<close> leaves \<open>averageSpeed = 5\<close>; a second stroke
  with one distance of \<open>8\<close> gives \<open>(5 + 8) / 2 = 6.5\<close>, where the recurrence started at
  \<open>0\<close> gives \<open>4\<close>.
\<close>

theorem second_stroke_counterexample:
  "averageSpeed (metrics (run [StartDrawing True (Some (live_canvas [])) 0 (MouseEv 0 0),
        Draw True (Some (live_canvas [])) (MouseEv 0 0),
        Draw True (Some (live_canvas [])) (MouseEv 10 0),
        StopDrawing 1 1,
        StartDrawing True (Some (live_canvas [])) 2 (MouseEv 0 0),
        Draw True (Some (live_canvas [])) (MouseEv 0 0),
        Draw True (Some (live_canvas [])) (MouseEv 8 0)] (init 0))) = 13 / 2 \<and>
   sample_distances None [(0, 0), (8, 0)] = [8] \<and>
   smoothing_recurrence 0 (sample_distances None [(0, 0), (8, 0)]) = 4"
  unfolding two_strokes by simp

section \<open>Derived scores\<close>

lemma toFixed2_unit: "0 \<le> x \<Longrightarrow> x \<le> 1 \<Longrightarrow> 0 \<le> toFixed2 x \<and> toFixed2 x \<le> 1"
proof -
  assume x: "0 \<le> x" "x \<le> 1"
  define n where "n = \<lfloor>x * 100 + 1 / 2\<rfloor>"
  have lo: "0 \<le> n" using x by (simp add: n_def)
  have "x * 100 + 1 / 2 < 101" using x by simp
  then have "n < 101" by (simp add: n_def floor_less_iff)
  then have hi: "n \<le> 100" by simp
  have "toFixed2 x = real_of_int n / 100"
    using x by (simp add: toFixed2_def n_def)
  moreover have "0 \<le> real_of_int n / 100" using lo by simp
  moreover have "real_of_int n / 100 \<le> 1" using hi by simp
  ultimately show ?thesis by simp
qed

lemma scores_unit:
  "0 \<le> confidence_score m \<and> confidence_score m \<le> 1 \<and>
   0 \<le> efficiency_score m \<and> efficiency_score m \<le> 1 \<and>
   0 \<le> clarity_score m \<and> clarity_score m \<le> 1"
  by (simp add: confidence_score_def efficiency_score_def clarity_score_def)

lemma redraw_rate_le_1: "redraw_rate m \<le> 1 \<longleftrightarrow> undoCount m \<le> strokeCount m + 1"
proof -
  have "redraw_rate m \<le> 1 \<longleftrightarrow> real (undoCount m) \<le> real (strokeCount m) + 1"
    by (simp add: redraw_rate_def divide_le_eq)
  then show ?thesis by linarith
qed

lemma two_clears_two_undos:
  "metrics (run [Clear (Some (live_canvas ''a'')), Clear (Some (live_canvas ''b'')),
                 Undo (Some (live_canvas ''b'')), Undo (Some (live_canvas ''b''))] (init 0)) =
   \<lparr>strokeCount = 0, lastStrokeTime = 0, hesitationSeconds = 0,
    totalDrawingTime = 0, clearCount = 2, undoCount = 2, averageSpeed = 0\<rparr>"
  by (simp add: clear_def undo_def saveState_def init_def live_canvas_def MAX_HISTORY_def
      restoreState_def Let_def)

text \<open>
  Claim C2, as amended. For metrics with non-negative fields the three clamped scores
  (confidence, efficiency, clarity) lie in \<open>[0, 1]\<close>, and so do the values the payload
  reports for them after rounding to two decimals. The redraw rate
  \<open>undoCount / (strokeCount + 1)\<close> is not clamped: it is non-negative, and it is at most
  \<open>1\<close> exactly when \<open>undoCount \<le> strokeCount + 1\<close>.
\<close>

theorem scores_bounded:
  assumes "0 \<le> hesitationSeconds m" and "0 \<le> totalDrawingTime m" and "0 \<le> averageSpeed m"
    and "getMetricsPayload ph timeLeft now lastCommentTime commentCount (Some m) = Some p"
  shows "0 \<le> confidence_score m \<and> confidence_score m \<le> 1 \<and>
         0 \<le> efficiency_score m \<and> efficiency_score m \<le> 1 \<and>
         0 \<le> clarity_score m \<and> clarity_score m \<le> 1 \<and>
         0 \<le> pl_confidence p \<and> pl_confidence p \<le> 1 \<and>
         0 \<le> pl_efficiency p \<and> pl_efficiency p \<le> 1 \<and>
         0 \<le> pl_clarity p \<and> pl_clarity p \<le> 1 \<and>
         0 \<le> redraw_rate m \<and>
         (redraw_rate m \<le> 1 \<longleftrightarrow> undoCount m \<le> strokeCount m + 1)"
proof -
  from assms(4) have p:
    "pl_confidence p = toFixed2 (confidence_score m)"
    "pl_efficiency p = toFixed2 (efficiency_score m)"
    "pl_clarity p = toFixed2 (clarity_score m)"
    by (auto simp: getMetricsPayload_def Let_def)
  have "0 \<le> redraw_rate m" by (simp add: redraw_rate_def)
  then show ?thesis
    using scores_unit [of m] p redraw_rate_le_1 [of m]
      toFixed2_unit [of "confidence_score m"] toFixed2_unit [of "efficiency_score m"]
      toFixed2_unit [of "clarity_score m"]
    by simp
qed

text \<open>The theorem at a state with \<open>100\<close> strokes and \<open>3\<close> undos.\<close>

theorem scores_bounded_witness:
  "0 \<le> confidence_score \<lparr>strokeCount = 100, lastStrokeTime = 0, hesitationSeconds = 1,
      totalDrawingTime = 1000, clearCount = 0, undoCount = 3, averageSpeed = 50\<rparr> \<and>
   confidence_score \<lparr>strokeCount = 100, lastStrokeTime = 0, hesitationSeconds = 1,
      totalDrawingTime = 1000, clearCount = 0, undoCount = 3, averageSpeed = 50\<rparr> \<le> 1 \<and>
   efficiency_score \<lparr>strokeCount = 100, lastStrokeTime = 0, hesitationSeconds = 1,
      totalDrawingTime = 1000, clearCount = 0, undoCount = 3, averageSpeed = 50\<rparr> \<le> 1 \<and>
   clarity_score \<lparr>strokeCount = 100, lastStrokeTime = 0, hesitationSeconds = 1,
      totalDrawingTime = 1000, clearCount = 0, undoCount = 3, averageSpeed = 50\<rparr> \<le> 1 \<and>
   redraw_rate \<lparr>strokeCount = 100, lastStrokeTime = 0, hesitationSeconds = 1,
      totalDrawingTime = 1000, clearCount = 0, undoCount = 3, averageSpeed = 50\<rparr> \<le> 1"
  using scores_bounded [of "\<lparr>strokeCount = 100, lastStrokeTime = 0, hesitationSeconds = 1,
      totalDrawingTime = 1000, clearCount = 0, undoCount = 3, averageSpeed = 50\<rparr>"
      Live 60 0 0 0
      "\<lparr>pl_phase = Live, pl_remaining_pct = 1, pl_confidence = 1, pl_trend = ''stable'',
        pl_hesitation_seconds = 1, pl_redraw_rate = 3 / 100, pl_efficiency = 1,
        pl_panic_detected = False, pl_clarity = 1, pl_recognizable_early = True,
        pl_cooldown_active = True, pl_comments_used = 0\<rparr>"]
  by (simp add: getMetricsPayload_def toFixed2_def confidence_score_def efficiency_score_def
      clarity_score_def redraw_rate_def trend_def)

text \<open>
  Claim C2 as stated fails for the redraw rate: two clears followed by two undos on a new
  canvas leave \<open>strokeCount = 0\<close> and \<open>undoCount = 2\<close>, every field non-negative, and the
  redraw rate, raw and as reported, is \<open>2\<close>.
\<close>

theorem redraw_rate_counterexample:
  "metrics (run [Clear (Some (live_canvas ''a'')), Clear (Some (live_canvas ''b'')),
                 Undo (Some (live_canvas ''b'')), Undo (Some (live_canvas ''b''))] (init 0)) =
     \<lparr>strokeCount = 0, lastStrokeTime = 0, hesitationSeconds = 0,
      totalDrawingTime = 0, clearCount = 2, undoCount = 2, averageSpeed = 0\<rparr> \<and>
   redraw_rate
     (metrics (run [Clear (Some (live_canvas ''a'')), Clear (Some (live_canvas ''b'')),
                    Undo (Some (live_canvas ''b'')), Undo (Some (live_canvas ''b''))] (init 0))) = 2 \<and>
   \<not> redraw_rate
     (metrics (run [Clear (Some (live_canvas ''a'')), Clear (Some (live_canvas ''b'')),
                    Undo (Some (live_canvas ''b'')), Undo (Some (live_canvas ''b''))] (init 0))) \<le> 1 \<and>
   map_option pl_redraw_rate (getMetricsPayload Live 60 0 0 0
     (Some (metrics (run [Clear (Some (live_canvas ''a'')), Clear (Some (live_canvas ''b'')),
                          Undo (Some (live_canvas ''b'')), Undo (Some (live_canvas ''b''))]
                      (init 0))))) = Some 2"
  unfolding two_clears_two_undos
  by (simp add: redraw_rate_def getMetricsPayload_def toFixed2_def)

section \<open>The bound on the undo stack\<close>

lemma saveState_bounded: "history_bounded st \<Longrightarrow> history_bounded (saveState cv st)"
  by (cases cv) (auto simp: history_bounded_def saveState_def Let_def MAX_HISTORY_def)

lemma length_pop:
  "xs \<noteq> [] \<Longrightarrow> Suc (length xs - Suc 0 + n) = length xs + n"
  "xs \<noteq> [] \<Longrightarrow> Suc (n + (length xs - Suc 0)) = n + length xs"
  by (cases xs; simp)+

lemma draw_stacks:
  "undoStack (draw a cv e st) = undoStack st \<and> redoStack (draw a cv e st) = redoStack st"
  by (auto simp: draw_def Let_def split: option.splits prod.splits)

lemma handle_bounded: "history_bounded st \<Longrightarrow> history_bounded (handle ev st)"
proof (cases ev)
  case (StartDrawing a cv now e)
  assume "history_bounded st"
  then have "history_bounded st \<and> history_bounded (saveState cv st)"
    by (simp add: saveState_bounded)
  then show ?thesis
    using StartDrawing by (simp add: startDrawing_def Let_def history_bounded_def draw_stacks)
next
  case (Draw a cv e)
  assume "history_bounded st"
  then show ?thesis using Draw by (simp add: history_bounded_def draw_stacks)
next
  case (StopDrawing n1 n2)
  assume "history_bounded st"
  then show ?thesis using StopDrawing by (simp add: history_bounded_def stopDrawing_def Let_def)
next
  case (SaveState cv)
  assume "history_bounded st"
  then show ?thesis using SaveState by (simp add: saveState_bounded)
next
  case (Clear cv)
  assume "history_bounded st"
  then have "history_bounded (saveState cv st)" by (rule saveState_bounded)
  then show ?thesis
    using Clear by (cases cv) (simp_all add: clear_def Let_def history_bounded_def)
next
  case (Undo cv)
  assume "history_bounded st"
  then show ?thesis
    using Undo by (cases cv) (auto simp: undo_def Let_def history_bounded_def length_pop)
next
  case (Redo cv)
  assume "history_bounded st"
  then show ?thesis
    using Redo by (cases cv) (auto simp: redo_def Let_def history_bounded_def length_pop)
next
  case (GetMetrics now)
  assume "history_bounded st"
  then show ?thesis using GetMetrics by (simp add: getMetrics_def Let_def history_bounded_def)
qed

lemma run_bounded: "history_bounded st \<Longrightarrow> history_bounded (run evs st)"
  by (induction evs arbitrary: st) (auto intro: handle_bounded)

lemma init_bounded: "history_bounded (init now)"
  by (simp add: history_bounded_def init_def)

lemma saveState_push:
  "undoStack (saveState (Some c) st) =
     (if length (undoStack st) < MAX_HISTORY then undoStack st @ [dataURL c]
      else tl (undoStack st) @ [dataURL c])"
  by (cases "undoStack st") (auto simp: saveState_def Let_def MAX_HISTORY_def)

lemma drop_tl_snoc:
  "length xs = n \<Longrightarrow> 0 < n \<Longrightarrow> tl xs @ [x] = drop (length (xs @ [x]) - n) (xs @ [x])"
  by (cases xs) auto

lemma saveState_keeps_latest:
  "length (undoStack st) \<le> MAX_HISTORY \<Longrightarrow>
   undoStack (saveState (Some c) st) =
     drop (length (undoStack st @ [dataURL c]) - MAX_HISTORY) (undoStack st @ [dataURL c])"
proof (cases "length (undoStack st) < MAX_HISTORY")
  case True
  then show ?thesis by (simp add: saveState_push)
next
  case False
  assume "length (undoStack st) \<le> MAX_HISTORY"
  with False have len: "length (undoStack st) = MAX_HISTORY" by simp
  then show ?thesis
    using drop_tl_snoc [of "undoStack st" MAX_HISTORY "dataURL c"]
    by (simp add: saveState_push MAX_HISTORY_def)
qed

lemma drop_window:
  "drop (length (drop (length xs - n) xs @ ys) - n) (drop (length xs - n) xs @ ys) =
   drop (length (xs @ ys) - n) (xs @ ys)"
proof (cases "length xs \<le> n")
  case True
  then show ?thesis by simp
next
  case False
  then have "length (drop (length xs - n) xs @ ys) - n = length ys"
    and "length (xs @ ys) - n = (length xs - n) + length ys"
    and "length xs - n + length ys - length xs = length ys - n"
    by auto
  then show ?thesis by (simp add: add.commute)
qed

lemma pushes_keep_latest:
  "length (undoStack st) \<le> MAX_HISTORY \<Longrightarrow>
   undoStack (run (pushes cs) st) =
     drop (length (undoStack st @ map dataURL cs) - MAX_HISTORY) (undoStack st @ map dataURL cs)"
proof (induction cs arbitrary: st)
  case Nil
  then show ?case by (simp add: pushes_def)
next
  case (Cons c cs)
  let ?st = "saveState (Some c) st"
  let ?all = "undoStack st @ [dataURL c]"
  have keep: "undoStack ?st = drop (length ?all - MAX_HISTORY) ?all"
    using Cons.prems by (rule saveState_keeps_latest)
  then have len: "length (undoStack ?st) \<le> MAX_HISTORY" by simp
  have "undoStack (run (pushes (c # cs)) st) = undoStack (run (pushes cs) ?st)"
    by (simp add: pushes_def)
  also have "\<dots> = drop (length (undoStack ?st @ map dataURL cs) - MAX_HISTORY)
                    (undoStack ?st @ map dataURL cs)"
    using Cons.IH [OF len] .
  also have "\<dots> = drop (length (?all @ map dataURL cs) - MAX_HISTORY) (?all @ map dataURL cs)"
    unfolding keep by (rule drop_window)
  finally show ?case by simp
qed

text \<open>
  Claim C3. After any sequence of handler calls on a new canvas (strokes, pointer moves,
  \<open>saveState\<close>, \<open>clear\<close>, \<open>undo\<close>, \<open>redo\<close>, \<open>getMetrics\<close>, with any canvas readings) the
  undo stack holds at most \<open>50\<close> snapshots; \<open>redo\<close> cannot break the bound because the two
  stacks together never exceed it. After any number of \<open>saveState\<close> calls the stack holds
  the most recent \<open>50\<close> snapshots in order, and a \<open>saveState\<close> on a full stack drops the
  oldest entry and appends the new one.
\<close>

theorem undoStack_bounded:
  "length (undoStack (run evs (init now))) \<le> 50 \<and>
   undoStack (run (pushes cs) (init now)) = drop (length cs - 50) (map dataURL cs) \<and>
   (length (undoStack st) = 50 \<longrightarrow>
      undoStack (saveState (Some c) st) = tl (undoStack st) @ [dataURL c])"
proof -
  have "history_bounded (run evs (init now))"
    using init_bounded by (rule run_bounded)
  then have "length (undoStack (run evs (init now))) \<le> 50"
    by (simp add: history_bounded_def MAX_HISTORY_def)
  moreover have "undoStack (run (pushes cs) (init now)) = drop (length cs - 50) (map dataURL cs)"
    using pushes_keep_latest [of "init now" cs] by (simp add: init_def MAX_HISTORY_def)
  ultimately show ?thesis by (simp add: saveState_push MAX_HISTORY_def)
qed

text \<open>
  Pushing \<open>51\<close> snapshots (the \<open>n\<close>-th being \<open>n\<close> letters long) keeps the last \<open>50\<close>;
  a push onto a stack of exactly \<open>50\<close> evicts the oldest.
\<close>

theorem undoStack_bounded_witness:
  "undoStack (run (pushes (map (\<lambda>n. live_canvas (replicate n CHR ''x'')) [0..<51])) (init 0)) =
     map (\<lambda>n. replicate n CHR ''x'') [1..<51] \<and>
   length (undoStack (run (pushes (map (\<lambda>n. live_canvas (replicate n CHR ''x'')) [0..<51])) (init 0))) = 50 \<and>
   length (undoStack (run (pushes (map (\<lambda>n. live_canvas (replicate n CHR ''x'')) [0..<50])) (init 0))) = 50 \<and>
   undoStack (saveState (Some (live_canvas ''new''))
       (run (pushes (map (\<lambda>n. live_canvas (replicate n CHR ''x'')) [0..<50])) (init 0))) =
     map (\<lambda>n. replicate n CHR ''x'') [1..<50] @ [''new'']"
  using
    undoStack_bounded [of "pushes (map (\<lambda>n. live_canvas (replicate n CHR ''x'')) [0..<51])" 0
      "map (\<lambda>n. live_canvas (replicate n CHR ''x'')) [0..<51]"
      "run (pushes (map (\<lambda>n. live_canvas (replicate n CHR ''x'')) [0..<50])) (init 0)"
      "live_canvas ''new''"]
    undoStack_bounded [of "[]" 0
      "map (\<lambda>n. live_canvas (replicate n CHR ''x'')) [0..<50]" "init 0" "live_canvas []"]
  by (simp add: drop_map live_canvas_def o_def map_tl [symmetric] del: upt_Suc)

section \<open>Round trips through the history\<close>


lemma redo_pushes_surface:
  "redoStack st \<noteq> [] \<Longrightarrow> undoStack (snd (redo (Some c) st)) = undoStack st @ [dataURL c]"
  by (simp add: redo_def Let_def)










section \<open>Saving a state discards the redo history\<close>

lemma stroke_then_undo:
  "run [StartDrawing True (Some (live_canvas ''a'')) 0 (MouseEv 0 0),
        Undo (Some (live_canvas ''b''))] (init 0) =
   \<lparr>metrics = \<lparr>strokeCount = 1, lastStrokeTime = 0, hesitationSeconds = 0,
               totalDrawingTime = 0, clearCount = 0, undoCount = 1, averageSpeed = 0\<rparr>,
    isDrawing = True, lastPos = None, drawStartTime = 0,
    undoStack = [], redoStack = [''b'']\<rparr>"
  by (simp add: startDrawing_def undo_def saveState_def init_def draw_def live_canvas_def
      MAX_HISTORY_def restoreState_def Let_def)

text \<open>
  Claim C5, as amended. After every \<open>saveState\<close> call made while the canvas is mounted
  the redo stack is empty: the call appends the snapshot to the undo stack (dropping the
  oldest entry when that makes \<open>51\<close>) and clears the redo stack whatever it held, so a
  \<open>redo\<close> right after it is a no-op. A \<open>saveState\<close> call made while the canvas is not
  mounted returns at its guard and changes nothing.
\<close>

theorem saveState_clears_redoStack:
  "redoStack (saveState (Some c) st) = [] \<and>
   undoStack (saveState (Some c) st) =
     (if length (undoStack st) < 50 then undoStack st @ [dataURL c]
      else tl (undoStack st) @ [dataURL c]) \<and>
   redo cv (saveState (Some c) st) = (NoPaint, saveState (Some c) st) \<and>
   saveState None st = st"
  by (simp add: saveState_push redo_def) (simp add: saveState_def Let_def MAX_HISTORY_def)

text \<open>A stroke, an undo, then a new \<open>saveState\<close>: the redo history is gone.\<close>

theorem saveState_clears_redoStack_witness:
  "redoStack (saveState (Some (live_canvas ''c''))
     (run [StartDrawing True (Some (live_canvas ''a'')) 0 (MouseEv 0 0),
           Undo (Some (live_canvas ''b''))] (init 0))) = [] \<and>
   undoStack (saveState (Some (live_canvas ''c''))
     (run [StartDrawing True (Some (live_canvas ''a'')) 0 (MouseEv 0 0),
           Undo (Some (live_canvas ''b''))] (init 0))) = [''c''] \<and>
   snd (redo (Some (live_canvas ''d'')) (saveState (Some (live_canvas ''c''))
     (run [StartDrawing True (Some (live_canvas ''a'')) 0 (MouseEv 0 0),
           Undo (Some (live_canvas ''b''))] (init 0)))) =
   saveState (Some (live_canvas ''c''))
     (run [StartDrawing True (Some (live_canvas ''a'')) 0 (MouseEv 0 0),
           Undo (Some (live_canvas ''b''))] (init 0))"
  using saveState_clears_redoStack [of "live_canvas ''c''"
      "run [StartDrawing True (Some (live_canvas ''a'')) 0 (MouseEv 0 0),
            Undo (Some (live_canvas ''b''))] (init 0)" "Some (live_canvas ''d'')"]
  unfolding stroke_then_undo by (simp add: live_canvas_def)

text \<open>
  Claim C5 as stated fails when the canvas is not mounted: after a stroke and an undo the
  redo stack holds one snapshot, and \<open>saveState\<close> without a canvas leaves it there.
\<close>

theorem saveState_without_canvas_counterexample:
  "redoStack (run [StartDrawing True (Some (live_canvas ''a'')) 0 (MouseEv 0 0),
                   Undo (Some (live_canvas ''b''))] (init 0)) = [''b''] \<and>
   redoStack (saveState None
     (run [StartDrawing True (Some (live_canvas ''a'')) 0 (MouseEv 0 0),
           Undo (Some (live_canvas ''b''))] (init 0))) = [''b''] \<and>
   redoStack (saveState None
     (run [StartDrawing True (Some (live_canvas ''a'')) 0 (MouseEv 0 0),
           Undo (Some (live_canvas ''b''))] (init 0))) \<noteq> []"
  unfolding stroke_then_undo by (simp add: saveState_def)

section \<open>Undo and redo on an empty stack\<close>

text \<open>
  Claim C6. \<open>undo\<close> on an empty undo stack and \<open>redo\<close> on an empty redo stack return at
  their guard: nothing is painted and the whole state (both stacks, every metric, the
  stroke in progress) is the one before the call. The handlers have no failing branch.
\<close>

theorem empty_stack_noop:
  "(undoStack st = [] \<longrightarrow> undo cv st = (NoPaint, st)) \<and>
   (redoStack st = [] \<longrightarrow> redo cv st = (NoPaint, st))"
  by (simp add: undo_def redo_def)

text \<open>Both stacks of a new canvas are empty.\<close>

theorem empty_stack_noop_witness:
  "undoStack (init 0) = [] \<and> redoStack (init 0) = [] \<and>
   undo (Some (live_canvas ''a'')) (init 0) = (NoPaint, init 0) \<and>
   redo (Some (live_canvas ''a'')) (init 0) = (NoPaint, init 0)"
  using empty_stack_noop [of "init 0" "Some (live_canvas ''a'')"]
  by (simp add: init_def)

section \<open>Hesitation\<close>

text \<open>
  Claim C7. \<open>getMetrics\<close> called while no stroke is in progress returns
  \<open>hesitationSeconds = (now - lastStrokeTime) / 1000\<close>; called during a stroke it returns
  the stored value and leaves the state alone. In both cases the returned metrics differ
  from the stored ones in \<open>hesitationSeconds\<close> at most, and the state after the call
  differs from the one before in nothing but the metrics returned.
\<close>

theorem getMetrics_hesitation:
  "(\<not> isDrawing st \<longrightarrow>
      hesitationSeconds (fst (getMetrics now st)) =
        real_of_int (now - lastStrokeTime (metrics st)) / 1000) \<and>
   (isDrawing st \<longrightarrow>
      hesitationSeconds (fst (getMetrics now st)) = hesitationSeconds (metrics st) \<and>
      snd (getMetrics now st) = st) \<and>
   fst (getMetrics now st) =
     (metrics st)\<lparr>hesitationSeconds := hesitationSeconds (fst (getMetrics now st))\<rparr> \<and>
   snd (getMetrics now st) = st\<lparr>metrics := fst (getMetrics now st)\<rparr>"
  by (simp add: getMetrics_def Let_def)

text \<open>
  Mounted at \<open>1000\<close> ms and read at \<open>4500\<close> ms: \<open>3.5\<close> seconds. After a stroke has begun,
  a reading at \<open>9000\<close> ms still returns \<open>3.5\<close>.
\<close>

theorem getMetrics_hesitation_witness:
  "\<not> isDrawing (init 1000) \<and>
   hesitationSeconds (fst (getMetrics 4500 (init 1000))) = 7 / 2 \<and>
   isDrawing (startDrawing True (Some (live_canvas [])) 2000 (MouseEv 0 0)
     (snd (getMetrics 4500 (init 1000)))) \<and>
   hesitationSeconds (fst (getMetrics 9000
     (startDrawing True (Some (live_canvas [])) 2000 (MouseEv 0 0)
       (snd (getMetrics 4500 (init 1000)))))) = 7 / 2"
  using getMetrics_hesitation [of "init 1000" 4500]
    getMetrics_hesitation [of "startDrawing True (Some (live_canvas [])) 2000 (MouseEv 0 0)
       (snd (getMetrics 4500 (init 1000)))" 9000]
  by (simp add: init_def startDrawing_def saveState_def draw_def Let_def)

section \<open>Panic detection\<close>

text \<open>
  Claim C8. In the payload, \<open>panic_detected\<close> is true if and only if
  \<open>time_remaining_pct < 0.15\<close> and \<open>averageSpeed > 120\<close>, where \<open>time_remaining_pct\<close>
  is \<open>timeLeft / 60\<close>; at \<open>time_remaining_pct = 0.15\<close> and at \<open>averageSpeed = 120\<close> it is
  false.
\<close>

theorem panic_detected_iff:
  "getMetricsPayload ph timeLeft now lastCommentTime commentCount (Some m) = Some p \<Longrightarrow>
   pl_remaining_pct p = timeLeft / 60 \<and>
   (pl_panic_detected p \<longleftrightarrow> pl_remaining_pct p < 0.15 \<and> averageSpeed m > 120) \<and>
   (pl_remaining_pct p = 0.15 \<longrightarrow> \<not> pl_panic_detected p) \<and>
   (averageSpeed m = 120 \<longrightarrow> \<not> pl_panic_detected p)"
  by (auto simp: getMetricsPayload_def Let_def)

text \<open>
  Six seconds left (\<open>0.1\<close>) at speed \<open>121\<close>: panic. Nine seconds left (\<open>0.15\<close>) at speed
  \<open>121\<close>, and six seconds left at speed \<open>120\<close>: no panic.
\<close>

theorem panic_detected_iff_witness:
  "map_option pl_panic_detected (getMetricsPayload Live 6 0 0 0
     (Some \<lparr>strokeCount = 1, lastStrokeTime = 0, hesitationSeconds = 0,
            totalDrawingTime = 0, clearCount = 0, undoCount = 0, averageSpeed = 121\<rparr>)) =
     Some True \<and>
   map_option pl_panic_detected (getMetricsPayload Live 9 0 0 0
     (Some \<lparr>strokeCount = 1, lastStrokeTime = 0, hesitationSeconds = 0,
            totalDrawingTime = 0, clearCount = 0, undoCount = 0, averageSpeed = 121\<rparr>)) =
     Some False \<and>
   map_option pl_panic_detected (getMetricsPayload Live 6 0 0 0
     (Some \<lparr>strokeCount = 1, lastStrokeTime = 0, hesitationSeconds = 0,
            totalDrawingTime = 0, clearCount = 0, undoCount = 0, averageSpeed = 120\<rparr>)) =
     Some False"
proof -
  let ?fast = "\<lparr>strokeCount = 1, lastStrokeTime = 0, hesitationSeconds = 0,
      totalDrawingTime = 0, clearCount = 0, undoCount = 0, averageSpeed = 121\<rparr>"
  let ?edge = "\<lparr>strokeCount = 1, lastStrokeTime = 0, hesitationSeconds = 0,
      totalDrawingTime = 0, clearCount = 0, undoCount = 0, averageSpeed = 120\<rparr>"
  obtain p1 where p1: "getMetricsPayload Live 6 0 0 0 (Some ?fast) = Some p1"
    by (simp add: getMetricsPayload_def Let_def)
  obtain p2 where p2: "getMetricsPayload Live 9 0 0 0 (Some ?fast) = Some p2"
    by (simp add: getMetricsPayload_def Let_def)
  obtain p3 where p3: "getMetricsPayload Live 6 0 0 0 (Some ?edge) = Some p3"
    by (simp add: getMetricsPayload_def Let_def)
  have "pl_panic_detected p1"
    using panic_detected_iff [OF p1] by simp
  moreover have "\<not> pl_panic_detected p2"
    using panic_detected_iff [OF p2] by simp
  moreover have "\<not> pl_panic_detected p3"
    using panic_detected_iff [OF p3] by simp
  ultimately show ?thesis
    unfolding p1 p2 p3 by simp
qed

section \<open>Handlers called without a canvas\<close>

text \<open>
  Claim C9, as amended. When the canvas is not mounted (\<open>canvasRef.current\<close> is null)
  no handler fails: \<open>getSnapshot\<close> returns the empty string, \<open>saveState\<close>, \<open>undo\<close> and
  \<open>redo\<close> change nothing, and \<open>clear\<close> paints nothing and leaves both stacks alone, but
  it still increments \<open>clearCount\<close>; no other metric changes.
\<close>

theorem surface_unavailable:
  "getSnapshot None = Some [] \<and>
   saveState None st = st \<and>
   undo None st = (NoPaint, st) \<and>
   redo None st = (NoPaint, st) \<and>
   clear None st =
     (NoPaint, st\<lparr>metrics := (metrics st)\<lparr>clearCount := clearCount (metrics st) + 1\<rparr>\<rparr>)"
  by (simp add: getSnapshot_def saveState_def undo_def redo_def clear_def)

text \<open>The theorem after a stroke and an undo, where both counters and a stack are in use.\<close>

theorem surface_unavailable_witness:
  "undo None (run [StartDrawing True (Some (live_canvas ''a'')) 0 (MouseEv 0 0),
                   StartDrawing True (Some (live_canvas ''b'')) 0 (MouseEv 0 0),
                   Undo (Some (live_canvas ''c''))] (init 0)) =
     (NoPaint, run [StartDrawing True (Some (live_canvas ''a'')) 0 (MouseEv 0 0),
                    StartDrawing True (Some (live_canvas ''b'')) 0 (MouseEv 0 0),
                    Undo (Some (live_canvas ''c''))] (init 0)) \<and>
   redo None (run [StartDrawing True (Some (live_canvas ''a'')) 0 (MouseEv 0 0),
                   StartDrawing True (Some (live_canvas ''b'')) 0 (MouseEv 0 0),
                   Undo (Some (live_canvas ''c''))] (init 0)) =
     (NoPaint, run [StartDrawing True (Some (live_canvas ''a'')) 0 (MouseEv 0 0),
                    StartDrawing True (Some (live_canvas ''b'')) 0 (MouseEv 0 0),
                    Undo (Some (live_canvas ''c''))] (init 0)) \<and>
   undoStack (snd (clear None (init 0))) = [] \<and>
   clearCount (metrics (snd (clear None (init 0)))) = 1"
  using
    surface_unavailable [of "run [StartDrawing True (Some (live_canvas ''a'')) 0 (MouseEv 0 0),
                   StartDrawing True (Some (live_canvas ''b'')) 0 (MouseEv 0 0),
                   Undo (Some (live_canvas ''c''))] (init 0)"]
    surface_unavailable [of "init 0"]
  by (simp add: init_def)

text \<open>
  Claim C9 as stated fails for \<open>clear\<close>: called on a new component whose canvas is not
  mounted, it changes the metrics, raising \<open>clearCount\<close> from \<open>0\<close> to \<open>1\<close>.
\<close>

theorem clear_without_canvas_counterexample:
  "clearCount (metrics (init 0)) = 0 \<and>
   clearCount (metrics (snd (clear None (init 0)))) = 1 \<and>
   metrics (snd (clear None (init 0))) \<noteq> metrics (init 0)"
  by (simp add: clear_def saveState_def init_def)

section \<open>Redo and the metrics\<close>

lemma two_strokes_then_undo:
  "run [StartDrawing True (Some (live_canvas ''a'')) 0 (MouseEv 0 0),
        StartDrawing True (Some (live_canvas ''b'')) 0 (MouseEv 0 0),
        Undo (Some (live_canvas ''c''))] (init 0) =
   \<lparr>metrics = \<lparr>strokeCount = 2, lastStrokeTime = 0, hesitationSeconds = 0,
               totalDrawingTime = 0, clearCount = 0, undoCount = 1, averageSpeed = 0\<rparr>,
    isDrawing = True, lastPos = Some (0, 0), drawStartTime = 0,
    undoStack = [''a''], redoStack = [''c'']\<rparr>"
  by (simp add: startDrawing_def undo_def saveState_def init_def draw_def live_canvas_def
      MAX_HISTORY_def restoreState_def Let_def)

text \<open>
  Claim C10. \<open>redo\<close>, applied or not, leaves every field of the metrics as it was:
  \<open>strokeCount\<close>, \<open>lastStrokeTime\<close>, \<open>hesitationSeconds\<close>, \<open>totalDrawingTime\<close>,
  \<open>clearCount\<close>, \<open>undoCount\<close> and \<open>averageSpeed\<close>. \<open>undoCount\<close> grows by one with each
  applied \<open>undo\<close> (non-empty undo stack, canvas mounted) and with nothing else that
  \<open>undo\<close> or \<open>redo\<close> does.
\<close>

theorem redo_keeps_metrics:
  "metrics (snd (redo cv st)) = metrics st \<and>
   undoCount (metrics (snd (undo cv st))) =
     (if undoStack st \<noteq> [] \<and> cv \<noteq> None then undoCount (metrics st) + 1
      else undoCount (metrics st))"
  by (cases cv) (simp_all add: redo_def undo_def Let_def)

text \<open>An applied \<open>redo\<close> after two strokes and an undo: the counters stay at \<open>2\<close> and \<open>1\<close>.\<close>

theorem redo_keeps_metrics_witness:
  "fst (redo (Some (live_canvas ''d''))
     (run [StartDrawing True (Some (live_canvas ''a'')) 0 (MouseEv 0 0),
           StartDrawing True (Some (live_canvas ''b'')) 0 (MouseEv 0 0),
           Undo (Some (live_canvas ''c''))] (init 0))) = LoadImage ''c'' \<and>
   metrics (snd (redo (Some (live_canvas ''d''))
     (run [StartDrawing True (Some (live_canvas ''a'')) 0 (MouseEv 0 0),
           StartDrawing True (Some (live_canvas ''b'')) 0 (MouseEv 0 0),
           Undo (Some (live_canvas ''c''))] (init 0)))) =
     \<lparr>strokeCount = 2, lastStrokeTime = 0, hesitationSeconds = 0,
      totalDrawingTime = 0, clearCount = 0, undoCount = 1, averageSpeed = 0\<rparr>"
  using redo_keeps_metrics [of "Some (live_canvas ''d'')"
      "run [StartDrawing True (Some (live_canvas ''a'')) 0 (MouseEv 0 0),
            StartDrawing True (Some (live_canvas ''b'')) 0 (MouseEv 0 0),
            Undo (Some (live_canvas ''c''))] (init 0)"]
  unfolding two_strokes_then_undo
  by (simp add: redo_def restoreState_def live_canvas_def Let_def)

end
